theory Spec2Isabelle
  imports Main "HOL-Library.Word"
begin

section \<open>Values of the JavaScript runtime\<close>

text \<open>
  The two modules handle what the HTTP client hands them: parsed JSON, and the caller's
  command objects. Both are plain JavaScript values, and TypeScript's types are erased
  when the code runs (a response body is cast, \<^verbatim>\<open>body as BatchPayload<CPM>\<close>,
  never checked), so the model works on the values themselves.

  \<^item> \<open>JObj\<close> holds the own enumerable properties of a plain object in the order in which
    \<^verbatim>\<open>Object.keys\<close> lists them; an object has each key once, so theorems that
    count entries ask for \<open>distinct (map fst kvs)\<close>.
  \<^item> \<open>JNum\<close> holds a signed integer of 54 bits, read by \<open>sint\<close>: the integers from
    \<open>- 2 ^ 53\<close> to \<open>2 ^ 53 - 1\<close>. Each of them is a JavaScript number exactly (a double
    holds every integer of that range), and JavaScript writes each in plain decimal.
    Larger numbers, fractions, NaN and the infinities are outside the model.
  \<^item> A \<open>string\<close> is a list of characters; for ASCII text that is the JavaScript string
    unit by unit.
\<close>

datatype jsval =
    JUndefined
  | JNull
  | JBool bool
  | JNum "54 word"
  | JStr string
  | JArr "jsval list"
  | JObj "(string \<times> jsval) list"

text \<open>
  What can be thrown, or what a promise can reject with: an \<^verbatim>\<open>Error\<close> built by
  this layer with its message, a \<^verbatim>\<open>TypeError\<close> raised by the runtime itself, or
  any value \<open>'e\<close> of the injected HTTP capability.
\<close>

datatype 'e thrown = Error string | TypeError | Rejected 'e

subsection \<open>Decimal rendering of numbers\<close>

definition digitChar :: "nat \<Rightarrow> char" where
  "digitChar d = ''0123456789'' ! d"

fun showNat :: "nat \<Rightarrow> string" where
  "showNat n = (if n < 10 then [digitChar n] else showNat (n div 10) @ [digitChar (n mod 10)])"

declare showNat.simps [simp del]

definition showInt :: "int \<Rightarrow> string" where
  "showInt i = (if i < 0 then CHR ''-'' # showNat (nat (- i)) else showNat (nat i))"

subsection \<open>Truth value, property read, enumeration\<close>

text \<open>\<^verbatim>\<open>ToBoolean\<close>: what \<^verbatim>\<open>if (v)\<close> and \<^verbatim>\<open>v ? a : b\<close> test.\<close>

fun truthy :: "jsval \<Rightarrow> bool" where
  "truthy JUndefined = False"
| "truthy JNull = False"
| "truthy (JBool b) = b"
| "truthy (JNum n) = (n \<noteq> 0)"
| "truthy (JStr s) = (s \<noteq> [])"
| "truthy (JArr xs) = True"
| "truthy (JObj kvs) = True"

text \<open>
  \<^verbatim>\<open>v.name\<close> for the names the two modules read (\<^verbatim>\<open>result\<close>,
  \<^verbatim>\<open>result_error\<close>, \<^verbatim>\<open>error\<close>, \<^verbatim>\<open>method\<close>, \<^verbatim>\<open>params\<close>): none is
  an index, \<^verbatim>\<open>length\<close> or a property of a built-in prototype, so only a plain
  object can hold one. Reading a property of \<^verbatim>\<open>undefined\<close> or \<^verbatim>\<open>null\<close>
  raises a TypeError; a missing property reads as \<^verbatim>\<open>undefined\<close>.
\<close>

fun getField :: "jsval \<Rightarrow> string \<Rightarrow> 'e thrown + jsval" where
  "getField JUndefined name = Inl TypeError"
| "getField JNull name = Inl TypeError"
| "getField (JObj kvs) name = Inr (case map_of kvs name of None \<Rightarrow> JUndefined | Some v \<Rightarrow> v)"
| "getField v name = Inr JUndefined"

text \<open>
  \<^verbatim>\<open>Object.entries\<close>: a TypeError on \<^verbatim>\<open>undefined\<close> and \<^verbatim>\<open>null\<close>; the
  properties of an object; the elements of an array and the units of a string under
  their indices; nothing for a boolean or a number. \<^verbatim>\<open>Object.keys\<close> and
  \<^verbatim>\<open>Object.values\<close> are its two projections.
\<close>

definition indexed :: "'a list \<Rightarrow> (string \<times> 'a) list" where
  "indexed xs = zip (map showNat [0 ..< length xs]) xs"

fun objectEntries :: "jsval \<Rightarrow> 'e thrown + (string \<times> jsval) list" where
  "objectEntries JUndefined = Inl TypeError"
| "objectEntries JNull = Inl TypeError"
| "objectEntries (JObj kvs) = Inr kvs"
| "objectEntries (JArr xs) = Inr (indexed xs)"
| "objectEntries (JStr s) = Inr (indexed (map (\<lambda>c. JStr [c]) s))"
| "objectEntries v = Inr []"

definition objectKeys :: "jsval \<Rightarrow> 'e thrown + string list" where
  "objectKeys v = map_sum id (map fst) (objectEntries v)"

definition objectValues :: "jsval \<Rightarrow> 'e thrown + jsval list" where
  "objectValues v = map_sum id (map snd) (objectEntries v)"

subsection \<open>Conversion to a string\<close>

text \<open>
  \<^verbatim>\<open>ToString\<close>, as a template literal applies it, and \<^verbatim>\<open>Array.prototype.join\<close>.
  An array is rendered by joining its elements with a comma, \<^verbatim>\<open>undefined\<close> and
  \<^verbatim>\<open>null\<close> elements as the empty string. A plain object is rendered as
  \<^verbatim>\<open>[object Object]\<close> by the inherited method; an own property named
  \<^verbatim>\<open>toString\<close> hides that method, and since parsed JSON holds no function the
  conversion then raises a TypeError.
\<close>

fun toString :: "jsval \<Rightarrow> 'e thrown + string"
  and joinFrom :: "string \<Rightarrow> jsval list \<Rightarrow> 'e thrown + string" where
  "toString JUndefined = Inr ''undefined''"
| "toString JNull = Inr ''null''"
| "toString (JBool b) = Inr (if b then ''true'' else ''false'')"
| "toString (JNum n) = Inr (showInt (sint n))"
| "toString (JStr s) = Inr s"
| "toString (JArr xs) = joinFrom '','' xs"
| "toString (JObj kvs) =
     (if ''toString'' \<in> fst ` set kvs then Inl TypeError else Inr ''[object Object]'')"
| "joinFrom sep [] = Inr []"
| "joinFrom sep (x # xs) =
     (case (if x = JUndefined \<or> x = JNull then Inr [] else toString x) of
        Inl e \<Rightarrow> Inl e
      | Inr s \<Rightarrow>
          (if xs = [] then Inr s
           else (case joinFrom sep xs of Inl e \<Rightarrow> Inl e | Inr r \<Rightarrow> Inr (s @ sep @ r))))"

text \<open>Joining strings with a separator: what \<^verbatim>\<open>join\<close> yields on an array of strings.\<close>

fun joinStrings :: "string \<Rightarrow> string list \<Rightarrow> string" where
  "joinStrings sep [] = []"
| "joinStrings sep [s] = s"
| "joinStrings sep (s # t # ts) = s @ sep @ joinStrings sep (t # ts)"

section \<open>The imports of the two modules\<close>

text \<open>
  Modelled from the spec: \<^verbatim>\<open>isArray\<close> of \<^verbatim>\<open>../../utils/isArray\<close> is not among the
  sources. The spec describes the test it makes: the result-errors collection is either
  a sequence, used as it is, or a mapping keyed by command name.
\<close>

definition isArray :: "jsval \<Rightarrow> bool" where
  "isArray v = (case v of JArr xs \<Rightarrow> True | _ \<Rightarrow> False)"

text \<open>The elements of a value that \<open>isArray\<close> accepted.\<close>

fun arrayItems :: "jsval \<Rightarrow> jsval list" where
  "arrayItems (JArr xs) = xs"
| "arrayItems v = []"

text \<open>
  Modelled from the spec: \<^verbatim>\<open>Method.BATCH\<close> of \<^verbatim>\<open>../../types\<close> is not among the
  sources; the spec calls it the batch endpoint. No theorem depends on its spelling.
\<close>

definition Method_BATCH :: string where
  "Method_BATCH = ''batch''"

text \<open>
  Modelled from the spec: the types \<^verbatim>\<open>Command\<close> and \<^verbatim>\<open>Commands\<close> of
  \<^verbatim>\<open>../../types\<close> are not among the sources. A command is a method identifier with
  an optional parameter mapping; the doc comment of \<^verbatim>\<open>batch\<close> writes one as
  \<^verbatim>\<open>{ method: M, params: { ID: 11 } }\<close>. \<open>commandValue\<close> is the object a well-typed
  command is at run time, \<open>commandsValue\<close> the object of a well-typed mapping of named
  commands.
\<close>

datatype command = Command string "(string \<times> jsval) list option"

fun commandValue :: "command \<Rightarrow> jsval" where
  "commandValue (Command m None) = JObj [(''method'', JStr m)]"
| "commandValue (Command m (Some ps)) = JObj [(''method'', JStr m), (''params'', JObj ps)]"

definition commandsValue :: "(string \<times> command) list \<Rightarrow> jsval" where
  "commandsValue cs = JObj (map (\<lambda>(name, c). (name, commandValue c)) cs)"

text \<open>
  \<^verbatim>\<open>stringify\<close> of Node's \<^verbatim>\<open>querystring\<close> module is imported under the name
  \<^verbatim>\<open>stringifyQuery\<close>. It is not code of the repository, so the encoder below takes
  it as a parameter, and the general theorems hold for every stringifier.
  \<open>querystring_stringify\<close> follows the module's documented behaviour with its default
  separators and serves as the instance at which theorems are evaluated:
  \<^verbatim>\<open>key=value\<close> pairs joined by \<^verbatim>\<open>&\<close>, one pair per element for an array value
  (none for an empty array), keys and string values percent-encoded, numbers and
  booleans in their usual spelling, every other value as the empty string; anything
  that is not an object yields the empty string.
\<close>

definition unreserved :: "char \<Rightarrow> bool" where
  "unreserved c \<longleftrightarrow>
     c \<in> set ''ABCDEFGHIJKLMNOPQRSTUVWXYZabcdefghijklmnopqrstuvwxyz0123456789-_.!~*()''
     \<or> c = CHR 0x27"

definition hexDigit :: "nat \<Rightarrow> char" where
  "hexDigit d = ''0123456789ABCDEF'' ! d"

definition qsEscape :: "string \<Rightarrow> string" where
  "qsEscape s =
     concat (map (\<lambda>c. if unreserved c then [c]
                       else [CHR ''%'', hexDigit (of_char c div 16), hexDigit (of_char c mod 16)]) s)"

definition encodeStringified :: "jsval \<Rightarrow> string" where
  "encodeStringified v =
     (case v of
        JStr s \<Rightarrow> qsEscape s
      | JNum n \<Rightarrow> showInt (sint n)
      | JBool b \<Rightarrow> (if b then ''true'' else ''false'')
      | _ \<Rightarrow> [])"

definition stringifyFields :: "(string \<times> jsval) list \<Rightarrow> string" where
  "stringifyFields kvs =
     joinStrings ''&''
       (concat (map (\<lambda>(k, v).
          (case v of
             JArr vs \<Rightarrow> map (\<lambda>x. qsEscape k @ ''='' @ encodeStringified x) vs
           | _ \<Rightarrow> [qsEscape k @ ''='' @ encodeStringified v])) kvs))"

definition querystring_stringify :: "jsval \<Rightarrow> string" where
  "querystring_stringify obj =
     (case obj of
        JObj kvs \<Rightarrow> stringifyFields kvs
      | JArr xs \<Rightarrow> stringifyFields (indexed xs)
      | _ \<Rightarrow> [])"

section \<open>batch.ts\<close>

definition MAX_COMMANDS_PER_BATCH :: nat where
  "MAX_COMMANDS_PER_BATCH = 50"

text \<open>
  \<^verbatim>\<open>{ ...queries, [key]: value }\<close>: a new object with the properties of
  \<^verbatim>\<open>queries\<close> in their order, and \<^verbatim>\<open>key\<close> set last. A key that is already there
  keeps its place and takes the new value; a new key goes to the end (the keys built
  here start with \<^verbatim>\<open>cmd[\<close>, so none is an array index that would be moved forward).
\<close>

primrec spreadSet :: "(string \<times> 'a) list \<Rightarrow> string \<Rightarrow> 'a \<Rightarrow> (string \<times> 'a) list" where
  "spreadSet [] key val = [(key, val)]"
| "spreadSet (p # ps) key val =
     (if fst p = key then (key, val) # ps else p # spreadSet ps key val)"

text \<open>\<^verbatim>\<open>Array.prototype.reduce\<close> with an initial value, for a callback that may throw.\<close>

fun reduceE :: "('b \<Rightarrow> 'a \<Rightarrow> 'x + 'b) \<Rightarrow> 'b \<Rightarrow> 'a list \<Rightarrow> 'x + 'b" where
  "reduceE f acc [] = Inr acc"
| "reduceE f acc (x # xs) = (case f acc x of Inl e \<Rightarrow> Inl e | Inr acc' \<Rightarrow> reduceE f acc' xs)"

text \<open>The callback of the reduction in \<^verbatim>\<open>commandsToBatchQuery\<close> (lines 9 to 16).\<close>

definition batchQueryEntry ::
  "(jsval \<Rightarrow> string) \<Rightarrow> (string \<times> string) list \<Rightarrow> string \<times> jsval
     \<Rightarrow> 'e thrown + (string \<times> string) list" where
  "batchQueryEntry stringifyQuery queries entry =
     (case entry of (cmdName, command) \<Rightarrow>
        (case getField command ''params'' of
           Inl e \<Rightarrow> Inl e
         | Inr params \<Rightarrow>
             (let stringifiedParams =
                    (if truthy params then ''?'' @ stringifyQuery params else [])
              in (case getField command ''method'' of
                    Inl e \<Rightarrow> Inl e
                  | Inr method \<Rightarrow>
                      (case toString method of
                         Inl e \<Rightarrow> Inl e
                       | Inr methodText \<Rightarrow>
                           Inr (spreadSet queries (''cmd['' @ cmdName @ '']'')
                                  (methodText @ stringifiedParams)))))))"

definition commandsToBatchQuery ::
  "(jsval \<Rightarrow> string) \<Rightarrow> jsval \<Rightarrow> 'e thrown + (string \<times> string) list" where
  "commandsToBatchQuery stringifyQuery commands =
     (case objectEntries commands of
        Inl e \<Rightarrow> Inl e
      | Inr entries \<Rightarrow> reduceE (batchQueryEntry stringifyQuery) [] entries)"

text \<open>The message of the error thrown on line 26.\<close>

definition batchErrorMessage :: "nat \<Rightarrow> string \<Rightarrow> string" where
  "batchErrorMessage n joined =
     ''[batch] failed to process. Received errors in '' @ showNat n
       @ '' commands:'' @ [CHR 0x0A] @ joined"

text \<open>Line 19: \<^verbatim>\<open>payload.result.result_error\<close>, two property reads.\<close>

definition resultError :: "jsval \<Rightarrow> 'e thrown + jsval" where
  "resultError payload =
     (case getField payload ''result'' of
        Inl e \<Rightarrow> Inl e
      | Inr result \<Rightarrow> getField result ''result_error'')"

text \<open>
  Line 20: the sequence \<^verbatim>\<open>errors\<close>, which is \<^verbatim>\<open>resultErrors\<close> itself when that
  is an array and \<^verbatim>\<open>Object.values(resultErrors)\<close> otherwise.
\<close>

definition batchErrors :: "jsval \<Rightarrow> 'e thrown + jsval list" where
  "batchErrors payload =
     (case resultError payload of
        Inl e \<Rightarrow> Inl e
      | Inr resultErrors \<Rightarrow>
          (if isArray resultErrors then Inr (arrayItems resultErrors)
           else objectValues resultErrors))"

definition handleBatchPayload :: "jsval \<Rightarrow> 'e thrown + jsval" where
  "handleBatchPayload payload =
     (case batchErrors payload of
        Inl e \<Rightarrow> Inl e
      | Inr errors \<Rightarrow>
          (if length errors > 0
           then (case joinFrom [CHR 0x0A] errors of
                   Inl e \<Rightarrow> Inl e
                 | Inr joined \<Rightarrow> Inl (Error (batchErrorMessage (length errors) joined)))
           else Inr payload))"

text \<open>The message of the error thrown on lines 96 to 98.\<close>

definition tooManyCommandsMessage :: "nat \<Rightarrow> string" where
  "tooManyCommandsMessage commandsAmount =
     ''[batch] failed to process. Received '' @ showNat commandsAmount
       @ '' commands, but maximum '' @ showNat MAX_COMMANDS_PER_BATCH @ '' allowed''"

text \<open>
  The injected capability \<^verbatim>\<open>get(path, { query })\<close> is a parameter: for a path and a
  query it either rejects with a value or resolves with a response, of which the code
  reads the body only. A query is a JavaScript value; \<open>queryValue\<close> is the object that
  the record of strings built by the encoder is.

  The factory's function returns a promise. The model returns the list of the calls it
  made to \<^verbatim>\<open>get\<close>, in order, and the promise's outcome: \<open>Inl\<close> the value it
  rejects with, \<open>Inr\<close> the value it resolves with. A throw in the body of the
  \<^verbatim>\<open>async\<close> function or in a \<^verbatim>\<open>then\<close> callback rejects the promise, so it is an
  \<open>Inl\<close> too; the model does not tell a synchronous throw of \<^verbatim>\<open>get\<close> from a
  rejection.
\<close>

type_synonym 'e http_get = "string \<Rightarrow> jsval \<Rightarrow> 'e thrown + jsval"

definition queryValue :: "(string \<times> string) list \<Rightarrow> jsval" where
  "queryValue q = JObj (map (\<lambda>(k, v). (k, JStr v)) q)"

definition batch ::
  "(jsval \<Rightarrow> string) \<Rightarrow> 'e http_get \<Rightarrow> jsval
     \<Rightarrow> (string \<times> jsval) list \<times> ('e thrown + jsval)" where
  "batch stringifyQuery get commands =
     (case objectKeys commands of
        Inl e \<Rightarrow> ([], Inl e)
      | Inr keys \<Rightarrow>
          (let commandsAmount = length keys
           in if commandsAmount > MAX_COMMANDS_PER_BATCH
              then ([], Inl (Error (tooManyCommandsMessage commandsAmount)))
              else (case commandsToBatchQuery stringifyQuery commands of
                      Inl e \<Rightarrow> ([], Inl e)
                    | Inr query \<Rightarrow>
                        ([(Method_BATCH, queryValue query)],
                         (case get Method_BATCH (queryValue query) of
                            Inl e \<Rightarrow> Inl e
                          | Inr body \<Rightarrow> handleBatchPayload body)))))"

section \<open>The list module\<close>

text \<open>The message of the error thrown on lines 8 to 10.\<close>

definition resourceFetchMessage :: "string \<Rightarrow> string" where
  "resourceFetchMessage err = ''[get] failed to get the resource: '' @ err @ ''.''"

definition handleGetListPayload :: "jsval \<Rightarrow> 'e thrown + jsval" where
  "handleGetListPayload payload =
     (case getField payload ''error'' of
        Inl e \<Rightarrow> Inl e
      | Inr err \<Rightarrow>
          (if truthy err
           then (case toString err of
                   Inl e \<Rightarrow> Inl e
                 | Inr errText \<Rightarrow> Inl (Error (resourceFetchMessage errText)))
           else Inr payload))"

text \<open>An absent \<^verbatim>\<open>query\<close> argument is \<open>JUndefined\<close>.\<close>

definition getList ::
  "'e http_get \<Rightarrow> string \<Rightarrow> jsval \<Rightarrow> (string \<times> jsval) list \<times> ('e thrown + jsval)" where
  "getList get listMethod query =
     ([(listMethod, query)],
      (case get listMethod query of
         Inl e \<Rightarrow> Inl e
       | Inr body \<Rightarrow> handleGetListPayload body))"

section \<open>The encoding as the specification words it\<close>

text \<open>
  The specification of \<^verbatim>\<open>encode\<close>: each entry \<open>(name, command)\<close> gives the query key
  \<^verbatim>\<open>cmd[<name>]\<close>, whose value is the method, followed by \<^verbatim>\<open>?\<close> and the
  url-encoded parameters when the command carries parameters. These two definitions
  follow the specification's words, not the code; the theorems compare the code with
  them.
\<close>

definition queryKey :: "string \<Rightarrow> string" where
  "queryKey name = ''cmd['' @ name @ '']''"

fun specValue :: "(jsval \<Rightarrow> string) \<Rightarrow> command \<Rightarrow> string" where
  "specValue stringifyQuery (Command m None) = m"
| "specValue stringifyQuery (Command m (Some ps)) = m @ ''?'' @ stringifyQuery (JObj ps)"

definition specEntry :: "(jsval \<Rightarrow> string) \<Rightarrow> string \<times> command \<Rightarrow> string \<times> string" where
  "specEntry stringifyQuery entry = (queryKey (fst entry), specValue stringifyQuery (snd entry))"

section \<open>The encoder on well-typed commands\<close>

text \<open>
  On the object of a well-typed mapping of commands the reduction never throws, and with
  distinct names every step adds a new key at the end: the result is the entries of the
  specification, in the order of the commands.
\<close>

lemma queryKey_eq_iff: "queryKey a = queryKey b \<longleftrightarrow> a = b"
  by (simp add: queryKey_def)

lemma spreadSet_fresh:
  "key \<notin> fst ` set qs \<Longrightarrow> spreadSet qs key v = qs @ [(key, v)]"
  by (induction qs) auto

lemma batchQueryEntry_commandValue:
  "batchQueryEntry sq qs (name, commandValue c)
     = Inr (spreadSet qs (queryKey name) (specValue sq c))"
proof (cases c)
  case (Command m ps)
  then show ?thesis
    by (cases ps) (simp_all add: batchQueryEntry_def queryKey_def)
qed

lemma reduceE_commands:
  "distinct (map fst cs) \<Longrightarrow>
   (\<forall>name \<in> fst ` set cs. queryKey name \<notin> fst ` set acc) \<Longrightarrow>
   reduceE (batchQueryEntry sq) acc (map (\<lambda>(name, c). (name, commandValue c)) cs)
     = (Inr (acc @ map (specEntry sq) cs) :: 'e thrown + (string \<times> string) list)"
proof (induction cs arbitrary: acc)
  case Nil
  then show ?case by simp
next
  case (Cons entry cs)
  obtain name c where entry: "entry = (name, c)" by (cases entry)
  have fresh: "queryKey name \<notin> fst ` set acc"
    using Cons.prems(2) by (simp add: entry)
  have step: "batchQueryEntry sq acc (name, commandValue c)
      = (Inr (acc @ [specEntry sq entry]) :: 'e thrown + (string \<times> string) list)"
    by (simp add: batchQueryEntry_commandValue spreadSet_fresh [OF fresh] specEntry_def entry)
  have rest: "\<forall>n \<in> fst ` set cs. queryKey n \<notin> fst ` set (acc @ [specEntry sq entry])"
  proof
    fix n assume n: "n \<in> fst ` set cs"
    then have "n \<noteq> name"
      using Cons.prems(1) by (auto simp: entry)
    moreover have "queryKey n \<notin> fst ` set acc"
      using Cons.prems(2) n by auto
    ultimately show "queryKey n \<notin> fst ` set (acc @ [specEntry sq entry])"
      by (simp add: specEntry_def entry queryKey_eq_iff)
  qed
  have "distinct (map fst cs)"
    using Cons.prems(1) by simp
  from Cons.IH [OF this rest] step show ?case
    by (simp add: entry)
qed

lemma commandsToBatchQuery_commandsValue:
  "distinct (map fst cs) \<Longrightarrow>
   commandsToBatchQuery sq (commandsValue cs) = Inr (map (specEntry sq) cs)"
  using reduceE_commands [of cs "[]" sq]
  by (simp add: commandsToBatchQuery_def commandsValue_def)

lemma specEntry_keys:
  "map fst (map (specEntry sq) cs) = map queryKey (map fst cs)"
  by (simp add: specEntry_def)

lemma specEntry_distinct:
  "distinct (map fst cs) \<Longrightarrow> distinct (map fst (map (specEntry sq) cs))"
  unfolding specEntry_keys by (simp add: distinct_map inj_on_def queryKey_eq_iff)

section \<open>Joining strings, and the two branches of the size check\<close>

text \<open>On an array of strings, \<^verbatim>\<open>join\<close> never throws and joins the strings.\<close>

lemma joinFrom_strings:
  "joinFrom sep (map JStr msgs) = (Inr (joinStrings sep msgs) :: 'e thrown + string)"
  by (induction sep msgs rule: joinStrings.induct) simp_all

text \<open>
  Over the cap \<^verbatim>\<open>batch\<close> throws before anything else happens. With at most
  \<open>MAX_COMMANDS_PER_BATCH\<close> well-typed commands of distinct names it calls \<^verbatim>\<open>get\<close>
  once, on the batch endpoint with the encoded query, and hands the body of the response
  to \<^verbatim>\<open>handleBatchPayload\<close>.
\<close>

lemma batch_over_cap:
  "MAX_COMMANDS_PER_BATCH < length kvs \<Longrightarrow>
   batch sq get (JObj kvs) = ([], Inl (Error (tooManyCommandsMessage (length kvs))))"
  by (simp add: batch_def objectKeys_def)

lemma batch_within_cap:
  assumes "distinct (map fst cs)" and "length cs \<le> MAX_COMMANDS_PER_BATCH"
  shows "batch sq get (commandsValue cs)
           = ([(Method_BATCH, queryValue (map (specEntry sq) cs))],
              (case get Method_BATCH (queryValue (map (specEntry sq) cs)) of
                 Inl e \<Rightarrow> Inl e
               | Inr body \<Rightarrow> handleBatchPayload body))"
proof -
  have keys: "objectKeys (commandsValue cs) = (Inr (map fst cs) :: 'a thrown + string list)"
    by (simp add: objectKeys_def commandsValue_def case_prod_unfold comp_def)
  show ?thesis
    using assms(2)
    by (simp add: batch_def keys commandsToBatchQuery_commandsValue [OF assms(1)])
qed

section \<open>Reading the result errors\<close>

text \<open>
  The read on line 19 fails, with a TypeError, exactly when the payload or its
  \<^verbatim>\<open>result\<close> is \<^verbatim>\<open>undefined\<close> or \<^verbatim>\<open>null\<close>. A string enumerates as its
  characters.
\<close>

lemma resultError_TypeError_iff:
  "resultError payload = (Inl e :: 'e thrown + jsval) \<longleftrightarrow>
     e = TypeError \<and>
     (payload = JUndefined \<or> payload = JNull
      \<or> getField payload ''result'' = (Inr JUndefined :: 'e thrown + jsval)
      \<or> getField payload ''result'' = (Inr JNull :: 'e thrown + jsval))"
proof (cases payload)
  case (JObj fields)
  show ?thesis
  proof (cases "case map_of fields ''result'' of None \<Rightarrow> JUndefined | Some v \<Rightarrow> v")
  qed (auto simp: resultError_def JObj)
qed (auto simp: resultError_def)

lemma batchErrors_of_resultError:
  "resultError payload = (Inr re :: 'e thrown + jsval) \<Longrightarrow>
   batchErrors payload
     = (if isArray re then Inr (arrayItems re) else objectValues re :: 'e thrown + jsval list)"
  by (simp add: batchErrors_def)

lemma objectValues_chars:
  "objectValues (JStr s) = (Inr (map (\<lambda>c. JStr [c]) s) :: 'e thrown + jsval list)"
  by (simp add: objectValues_def indexed_def)

section \<open>Values at concrete inputs\<close>

lemma showNat_1: "showNat (Suc 0) = ''1''"
  by code_simp

lemma showNat_4: "showNat (Suc (Suc (Suc (Suc 0)))) = ''4''"
  by code_simp

lemma showNat_11: "showNat 11 = ''11''"
  by code_simp

lemma showNat_50: "showNat 50 = ''50''"
  by code_simp

lemma showNat_51: "showNat 51 = ''51''"
  by code_simp

lemma qs_ID_11: "querystring_stringify (JObj [(''ID'', JNum 11)]) = ''ID=11''"
  by (simp add: querystring_stringify_def stringifyFields_def qsEscape_def unreserved_def
      encodeStringified_def showInt_def showNat_11)

section \<open>The claims\<close>

text \<open>
  C1. A commands mapping with more than 50 entries makes \<^verbatim>\<open>batch\<close> fail with the
  too-many-commands error, whose message spells the number of entries and the limit 50,
  and the list of calls to \<^verbatim>\<open>get\<close> is empty. A mapping of at most 50 well-typed
  commands passes the size check: exactly one call is made, to the batch endpoint with
  the encoded query, and the outcome is that of the call, its body validated.
\<close>

theorem batch_size_cap:
  "(50 < length kvs \<longrightarrow>
      batch stringifyQuery get (JObj kvs)
        = ([], Inl (Error (''[batch] failed to process. Received '' @ showNat (length kvs)
                             @ '' commands, but maximum 50 allowed''))))
   \<and> (distinct (map fst cs) \<and> length cs \<le> 50 \<longrightarrow>
      batch stringifyQuery get (commandsValue cs)
        = ([(Method_BATCH, queryValue (map (specEntry stringifyQuery) cs))],
           (case get Method_BATCH (queryValue (map (specEntry stringifyQuery) cs)) of
              Inl e \<Rightarrow> Inl e
            | Inr body \<Rightarrow> handleBatchPayload body)))"
proof (intro conjI impI)
  assume "50 < length kvs"
  then have "MAX_COMMANDS_PER_BATCH < length kvs"
    by (simp add: MAX_COMMANDS_PER_BATCH_def)
  then show "batch stringifyQuery get (JObj kvs)
        = ([], Inl (Error (''[batch] failed to process. Received '' @ showNat (length kvs)
                             @ '' commands, but maximum 50 allowed'')))"
    by (simp add: batch_over_cap tooManyCommandsMessage_def MAX_COMMANDS_PER_BATCH_def showNat_50)
next
  assume "distinct (map fst cs) \<and> length cs \<le> 50"
  then show "batch stringifyQuery get (commandsValue cs)
        = ([(Method_BATCH, queryValue (map (specEntry stringifyQuery) cs))],
           (case get Method_BATCH (queryValue (map (specEntry stringifyQuery) cs)) of
              Inl e \<Rightarrow> Inl e
            | Inr body \<Rightarrow> handleBatchPayload body))"
    by (simp add: batch_within_cap MAX_COMMANDS_PER_BATCH_def)
qed

theorem batch_size_cap_witness:
  "50 < length (map (\<lambda>i. (showNat i, commandValue (Command ''M'' None))) [0 ..< 51])
   \<and> batch querystring_stringify (\<lambda>path query. Inr JNull)
        (JObj (map (\<lambda>i. (showNat i, commandValue (Command ''M'' None))) [0 ..< 51]))
      = ([], Inl (Error ''[batch] failed to process. Received 51 commands, but maximum 50 allowed'')
               :: unit thrown + jsval)
   \<and> distinct (map fst [(''a'', Command ''M'' None)])
   \<and> length [(''a'', Command ''M'' None)] \<le> 50
   \<and> fst (batch querystring_stringify (\<lambda>path query. Inr JNull :: unit thrown + jsval)
             (commandsValue [(''a'', Command ''M'' None)]))
      = [(Method_BATCH, JObj [(''cmd[a]'', JStr ''M'')])]"
  using batch_size_cap [of "map (\<lambda>i. (showNat i, commandValue (Command ''M'' None))) [0 ..< 51]"
      querystring_stringify "\<lambda>path query. Inr JNull :: unit thrown + jsval"
      "[(''a'', Command ''M'' None)]"]
  by (simp add: showNat_51 queryValue_def specEntry_def queryKey_def)

text \<open>
  C2. When \<^verbatim>\<open>payload.result.result_error\<close> yields the sequence \<open>errors\<close>, the
  validation \<^verbatim>\<open>handleBatchPayload\<close> throws if and only if that sequence is not empty,
  and returns the payload itself if and only if it is empty. When the errors are the
  strings \<open>msgs\<close>, what is thrown is the batch-command error whose message holds their
  number and the strings joined by newlines.
\<close>

theorem validate_errors:
  assumes "batchErrors payload = (Inr errors :: 'e thrown + jsval list)"
  shows "((\<exists>e :: 'e thrown. handleBatchPayload payload = Inl e) \<longleftrightarrow> errors \<noteq> [])
       \<and> (handleBatchPayload payload = (Inr payload :: 'e thrown + jsval) \<longleftrightarrow> errors = [])
       \<and> (errors \<noteq> [] \<and> errors = map JStr msgs \<longrightarrow>
            handleBatchPayload payload
              = (Inl (Error (''[batch] failed to process. Received errors in ''
                               @ showNat (length msgs) @ '' commands:\<newline>''
                               @ joinStrings ''\<newline>'' msgs)) :: 'e thrown + jsval))"
proof (cases "errors = []")
  case True
  then show ?thesis
    using assms by (simp add: handleBatchPayload_def)
next
  case False
  have raised: "\<exists>e :: 'e thrown. handleBatchPayload payload = Inl e"
    using assms False by (simp add: handleBatchPayload_def split: sum.split)
  have strings: "handleBatchPayload payload
              = (Inl (Error (''[batch] failed to process. Received errors in ''
                               @ showNat (length msgs) @ '' commands:\<newline>''
                               @ joinStrings ''\<newline>'' msgs)) :: 'e thrown + jsval)"
    if "errors = map JStr msgs"
    using assms False that
    by (simp add: handleBatchPayload_def joinFrom_strings batchErrorMessage_def)
  from raised strings False show ?thesis
    by auto
qed

theorem validate_errors_witness:
  "batchErrors (JObj [(''result'', JObj [(''result_error'', JArr [JStr ''bad ID''])])])
     = (Inr [JStr ''bad ID''] :: unit thrown + jsval list)
   \<and> handleBatchPayload (JObj [(''result'', JObj [(''result_error'', JArr [JStr ''bad ID''])])])
     = (Inl (Error ''[batch] failed to process. Received errors in 1 commands:\<newline>bad ID'')
          :: unit thrown + jsval)"
proof -
  let ?p = "JObj [(''result'', JObj [(''result_error'', JArr [JStr ''bad ID''])])]"
  have e: "batchErrors ?p = (Inr [JStr ''bad ID''] :: unit thrown + jsval list)"
    by (simp add: batchErrors_def resultError_def isArray_def)
  from validate_errors [OF e, of "[''bad ID'']"] e show ?thesis
    by (simp add: showNat_1)
qed

text \<open>
  C3. For well-typed commands \<open>cs\<close> with distinct names, \<^verbatim>\<open>commandsToBatchQuery\<close>
  returns a record with as many entries as \<open>cs\<close>, under distinct keys; the keys are
  \<^verbatim>\<open>cmd[<name>]\<close> for the names of \<open>cs\<close>, in order, and the values are those of the
  specification: the method alone for a command without parameters, the method,
  \<^verbatim>\<open>?\<close> and the stringified parameters for a command with parameters.
\<close>

theorem encode_entries:
  assumes "distinct (map fst cs)"
  shows "\<exists>q. commandsToBatchQuery stringifyQuery (commandsValue cs)
              = (Inr q :: 'e thrown + (string \<times> string) list)
           \<and> length q = length cs
           \<and> distinct (map fst q)
           \<and> map fst q = map (\<lambda>name. ''cmd['' @ name @ '']'') (map fst cs)
           \<and> map snd q = map (specValue stringifyQuery) (map snd cs)"
proof -
  let ?q = "map (specEntry stringifyQuery) cs"
  have "commandsToBatchQuery stringifyQuery (commandsValue cs)
          = (Inr ?q :: 'e thrown + (string \<times> string) list)"
    using assms by (rule commandsToBatchQuery_commandsValue)
  moreover have "length ?q = length cs"
    by simp
  moreover have "distinct (map fst ?q)"
    using assms by (rule specEntry_distinct)
  moreover have "map fst ?q = map (\<lambda>name. ''cmd['' @ name @ '']'') (map fst cs)"
    by (simp add: specEntry_def queryKey_def)
  moreover have "map snd ?q = map (specValue stringifyQuery) (map snd cs)"
    by (simp add: specEntry_def)
  ultimately show ?thesis
    by blast
qed

theorem encode_entries_witness:
  "distinct (map fst [(''dealsList'', Command ''M'' None),
                      (''someLead'', Command ''M'' (Some [(''ID'', JNum 11)]))])
   \<and> commandsToBatchQuery querystring_stringify
        (commandsValue [(''dealsList'', Command ''M'' None),
                        (''someLead'', Command ''M'' (Some [(''ID'', JNum 11)]))])
      = (Inr [(''cmd[dealsList]'', ''M''), (''cmd[someLead]'', ''M?ID=11'')]
           :: unit thrown + (string \<times> string) list)"
proof -
  let ?cs = "[(''dealsList'', Command ''M'' None),
              (''someLead'', Command ''M'' (Some [(''ID'', JNum 11)]))]"
  have d: "distinct (map fst ?cs)"
    by simp
  from encode_entries [OF d, of querystring_stringify, where 'e = unit]
  obtain q where q: "commandsToBatchQuery querystring_stringify (commandsValue ?cs)
                       = (Inr q :: unit thrown + (string \<times> string) list)"
    and keys: "map fst q = map (\<lambda>name. ''cmd['' @ name @ '']'') (map fst ?cs)"
    and vals: "map snd q = map (specValue querystring_stringify) (map snd ?cs)"
    by blast
  have "q = zip (map fst q) (map snd q)"
    by (simp add: zip_map_fst_snd)
  then have "q = [(''cmd[dealsList]'', ''M''), (''cmd[someLead]'', ''M?ID=11'')]"
    unfolding keys vals by (simp add: qs_ID_11)
  with q d show ?thesis
    by simp
qed

text \<open>
  C4. An array as \<^verbatim>\<open>result_error\<close> is the error sequence as it is, a mapping is
  replaced by the sequence of its values; when \<^verbatim>\<open>result_error\<close> is the empty array
  or the empty mapping, \<^verbatim>\<open>handleBatchPayload\<close> throws nothing and returns the payload
  unchanged.
\<close>

theorem validate_no_errors:
  "(resultError payload = (Inr (JArr xs) :: 'e thrown + jsval) \<longrightarrow>
      batchErrors payload = (Inr xs :: 'e thrown + jsval list))
   \<and> (resultError payload = (Inr (JObj kvs) :: 'e thrown + jsval) \<longrightarrow>
      batchErrors payload = (Inr (map snd kvs) :: 'e thrown + jsval list))
   \<and> (resultError payload = (Inr (JArr []) :: 'e thrown + jsval)
        \<or> resultError payload = (Inr (JObj []) :: 'e thrown + jsval) \<longrightarrow>
      handleBatchPayload payload = (Inr payload :: 'e thrown + jsval))"
  by (auto simp: handleBatchPayload_def batchErrors_def isArray_def objectValues_def)

theorem validate_no_errors_witness:
  "resultError (JObj [(''result'', JObj [(''result_error'', JObj [])])])
     = (Inr (JObj []) :: unit thrown + jsval)
   \<and> handleBatchPayload (JObj [(''result'', JObj [(''result_error'', JObj [])])])
     = (Inr (JObj [(''result'', JObj [(''result_error'', JObj [])])]) :: unit thrown + jsval)
   \<and> resultError (JObj [(''result'', JObj [(''result_error'', JArr [])])])
     = (Inr (JArr []) :: unit thrown + jsval)
   \<and> handleBatchPayload (JObj [(''result'', JObj [(''result_error'', JArr [])])])
     = (Inr (JObj [(''result'', JObj [(''result_error'', JArr [])])]) :: unit thrown + jsval)
   \<and> resultError (JObj [(''result'', JObj [(''result_error'', JObj [(''a'', JStr ''bad ID'')])])])
     = (Inr (JObj [(''a'', JStr ''bad ID'')]) :: unit thrown + jsval)
   \<and> batchErrors (JObj [(''result'', JObj [(''result_error'', JObj [(''a'', JStr ''bad ID'')])])])
     = (Inr [JStr ''bad ID''] :: unit thrown + jsval list)"
  using
    validate_no_errors [of "JObj [(''result'', JObj [(''result_error'', JObj [])])]" "[]" "[]",
      where 'e = unit]
    validate_no_errors [of "JObj [(''result'', JObj [(''result_error'', JArr [])])]" "[]" "[]",
      where 'e = unit]
    validate_no_errors [of "JObj [(''result'', JObj [(''result_error'', JObj [(''a'', JStr ''bad ID'')])])]"
      "[]" "[(''a'', JStr ''bad ID'')]", where 'e = unit]
  by (simp add: resultError_def)

text \<open>
  C5. When \<^verbatim>\<open>get\<close> resolves with \<open>body\<close>, the list fetch has made one call, with the
  method and the query argument as they were given. If the body's \<^verbatim>\<open>error\<close> field is
  truthy and reads as the text \<open>errText\<close>, the fetch fails with the resource-fetch error
  whose message embeds that text; if the field is falsy, or the body is an object
  without it, the fetch resolves with the body unchanged.
\<close>

theorem getList_payload:
  assumes "get listMethod query = Inr body"
  shows "fst (getList get listMethod query) = [(listMethod, query)]
       \<and> (getField body ''error'' = (Inr err :: 'e thrown + jsval) \<and> truthy err
            \<and> toString err = (Inr errText :: 'e thrown + string) \<longrightarrow>
          snd (getList get listMethod query)
            = (Inl (Error (''[get] failed to get the resource: '' @ errText @ ''.''))
                 :: 'e thrown + jsval))
       \<and> (getField body ''error'' = (Inr err :: 'e thrown + jsval) \<and> \<not> truthy err \<longrightarrow>
          snd (getList get listMethod query) = Inr body)
       \<and> (body = JObj fields \<and> map_of fields ''error'' = None \<longrightarrow>
          snd (getList get listMethod query) = Inr body)"
  using assms
  by (auto simp: getList_def handleGetListPayload_def resourceFetchMessage_def)

theorem getList_payload_witness:
  "getField (JObj [(''error'', JStr ''not found'')]) ''error''
     = (Inr (JStr ''not found'') :: unit thrown + jsval)
   \<and> truthy (JStr ''not found'')
   \<and> toString (JStr ''not found'') = (Inr ''not found'' :: unit thrown + string)
   \<and> getList (\<lambda>path query. Inr (JObj [(''error'', JStr ''not found'')])) ''crm.deal.list''
        (JObj [(''start'', JNum 50)])
      = ([(''crm.deal.list'', JObj [(''start'', JNum 50)])],
         Inl (Error ''[get] failed to get the resource: not found.'') :: unit thrown + jsval)
   \<and> map_of [(''result'', JArr [JNum 1, JNum 2])] ''error'' = None
   \<and> getList (\<lambda>path query. Inr (JObj [(''result'', JArr [JNum 1, JNum 2])])) ''crm.deal.list''
        JUndefined
      = ([(''crm.deal.list'', JUndefined)],
         Inr (JObj [(''result'', JArr [JNum 1, JNum 2])]) :: unit thrown + jsval)"
proof -
  let ?bad = "JObj [(''error'', JStr ''not found'')]"
  let ?good = "JObj [(''result'', JArr [JNum 1, JNum 2])]"
  let ?q = "JObj [(''start'', JNum 50)]"
  from getList_payload [of "\<lambda>path query. Inr ?bad :: unit thrown + jsval" "''crm.deal.list''"
      ?q ?bad "JStr ''not found''" "''not found''" "[]"]
    getList_payload [of "\<lambda>path query. Inr ?good :: unit thrown + jsval" "''crm.deal.list''"
      JUndefined ?good JUndefined "[]" "[(''result'', JArr [JNum 1, JNum 2])]"]
  show ?thesis
    by (simp add: prod_eq_iff)
qed

text \<open>
  C6. If the call that \<^verbatim>\<open>batch\<close> makes to \<^verbatim>\<open>get\<close> is rejected with \<open>e\<close>, then
  \<^verbatim>\<open>batch\<close> rejects with \<open>e\<close> itself; if \<^verbatim>\<open>get\<close> rejects the call of the list fetch
  with \<open>e\<close>, the list fetch rejects with \<open>e\<close> itself. Nothing is caught or wrapped.
\<close>

theorem transport_errors_propagate:
  "(fst (batch stringifyQuery get commands) = [(path, query)] \<and> get path query = Inl e \<longrightarrow>
      snd (batch stringifyQuery get commands) = Inl e)
   \<and> (get listMethod listQuery = Inl e \<longrightarrow>
      getList get listMethod listQuery = ([(listMethod, listQuery)], Inl e))"
  by (auto simp: batch_def getList_def Let_def split: sum.splits if_splits)

theorem transport_errors_propagate_witness:
  "fst (batch querystring_stringify (\<lambda>path query. Inl (Rejected ''ETIMEDOUT''))
          (commandsValue [(''a'', Command ''M'' None)]))
     = [(Method_BATCH, JObj [(''cmd[a]'', JStr ''M'')])]
   \<and> snd (batch querystring_stringify (\<lambda>path query. Inl (Rejected ''ETIMEDOUT''))
          (commandsValue [(''a'', Command ''M'' None)]))
     = Inl (Rejected ''ETIMEDOUT'')
   \<and> getList (\<lambda>path query. Inl (Rejected ''ETIMEDOUT'')) ''crm.deal.list'' JUndefined
     = ([(''crm.deal.list'', JUndefined)], Inl (Rejected ''ETIMEDOUT''))"
proof -
  let ?get = "\<lambda>(path :: string) (query :: jsval). Inl (Rejected ''ETIMEDOUT'') :: string thrown + jsval"
  let ?cs = "commandsValue [(''a'', Command ''M'' None)]"
  have call: "fst (batch querystring_stringify ?get ?cs)
                = [(Method_BATCH, JObj [(''cmd[a]'', JStr ''M'')])]"
    by (simp add: batch_within_cap MAX_COMMANDS_PER_BATCH_def queryValue_def specEntry_def
        queryKey_def)
  from transport_errors_propagate [of querystring_stringify ?get ?cs Method_BATCH
      "JObj [(''cmd[a]'', JStr ''M'')]" "Rejected ''ETIMEDOUT''" "''crm.deal.list''" JUndefined]
    call
  show ?thesis
    by simp
qed

text \<open>
  C7, as amended. Of the two shapes of no commands, the empty mapping is valid and
  yields a record without entries; an absent commands argument is not: on
  \<^verbatim>\<open>undefined\<close> the encoder fails with the TypeError of \<^verbatim>\<open>Object.entries\<close>. The
  parameter's type \<^verbatim>\<open>Commands\<close> does not admit an absent argument.
\<close>

theorem encode_no_commands:
  "commandsToBatchQuery stringifyQuery (JObj []) = (Inr [] :: 'e thrown + (string \<times> string) list)
   \<and> commandsToBatchQuery stringifyQuery (commandsValue [])
       = (Inr [] :: 'e thrown + (string \<times> string) list)
   \<and> commandsToBatchQuery stringifyQuery JUndefined
       = (Inl TypeError :: 'e thrown + (string \<times> string) list)"
  by (simp add: commandsToBatchQuery_def commandsValue_def)

text \<open>
  C7 as stated, that an absent commands argument is valid and yields no query
  parameters, fails: the encoder throws on \<^verbatim>\<open>undefined\<close>.
\<close>

theorem encode_undefined_counterexample:
  "commandsToBatchQuery querystring_stringify JUndefined
     = (Inl TypeError :: unit thrown + (string \<times> string) list)
   \<and> commandsToBatchQuery querystring_stringify JUndefined
     \<noteq> (Inr [] :: unit thrown + (string \<times> string) list)"
  by (simp add: commandsToBatchQuery_def)

text \<open>
  C8. The output of \<^verbatim>\<open>commandsToBatchQuery\<close> is determined by the mapping it is
  given. Two enumerations \<open>cs\<close> and \<open>cs'\<close> of one mapping of well-typed commands (the
  same entries, each name once, in any order) both encode successfully, to records with
  the same entries, equal as mappings from keys to values; and the same enumeration
  gives the same record, order included.
\<close>

theorem encode_deterministic:
  assumes "distinct (map fst cs)" and "distinct (map fst cs')" and "set cs = set cs'"
  shows "\<exists>q q'. commandsToBatchQuery stringifyQuery (commandsValue cs)
                  = (Inr q :: 'e thrown + (string \<times> string) list)
              \<and> commandsToBatchQuery stringifyQuery (commandsValue cs')
                  = (Inr q' :: 'e thrown + (string \<times> string) list)
              \<and> set q = set q' \<and> map_of q = map_of q'
              \<and> (cs = cs' \<longrightarrow> q = q')"
proof -
  let ?q = "map (specEntry stringifyQuery) cs" and ?q' = "map (specEntry stringifyQuery) cs'"
  have q: "commandsToBatchQuery stringifyQuery (commandsValue cs)
             = (Inr ?q :: 'e thrown + (string \<times> string) list)"
    using assms(1) by (rule commandsToBatchQuery_commandsValue)
  have q': "commandsToBatchQuery stringifyQuery (commandsValue cs')
             = (Inr ?q' :: 'e thrown + (string \<times> string) list)"
    using assms(2) by (rule commandsToBatchQuery_commandsValue)
  have sets: "set ?q = set ?q'"
    using assms(3) by simp
  have "map_of ?q = map_of ?q'"
    using specEntry_distinct [OF assms(1)] specEntry_distinct [OF assms(2)] sets
    by (simp add: map_of_inject_set)
  with q q' sets show ?thesis
    by blast
qed

theorem encode_deterministic_witness:
  "distinct (map fst [(''a'', Command ''M'' None), (''b'', Command ''N'' (Some []))])
   \<and> distinct (map fst [(''b'', Command ''N'' (Some [])), (''a'', Command ''M'' None)])
   \<and> set [(''a'', Command ''M'' None), (''b'', Command ''N'' (Some []))]
       = set [(''b'', Command ''N'' (Some [])), (''a'', Command ''M'' None)]
   \<and> commandsToBatchQuery querystring_stringify
         (commandsValue [(''a'', Command ''M'' None), (''b'', Command ''N'' (Some []))])
       = (Inr [(''cmd[a]'', ''M''), (''cmd[b]'', ''N?'')] :: unit thrown + (string \<times> string) list)
   \<and> commandsToBatchQuery querystring_stringify
         (commandsValue [(''b'', Command ''N'' (Some [])), (''a'', Command ''M'' None)])
       = (Inr [(''cmd[b]'', ''N?''), (''cmd[a]'', ''M'')] :: unit thrown + (string \<times> string) list)
   \<and> map_of [(''cmd[a]'', ''M''), (''cmd[b]'', ''N?'')]
       = map_of [(''cmd[b]'', ''N?''), (''cmd[a]'', ''M'')]"
proof -
  let ?cs = "[(''a'', Command ''M'' None), (''b'', Command ''N'' (Some []))]"
  let ?cs' = "[(''b'', Command ''N'' (Some [])), (''a'', Command ''M'' None)]"
  have d: "distinct (map fst ?cs)" and d': "distinct (map fst ?cs')"
    by simp_all
  have same: "set ?cs = set ?cs'"
    by auto
  have s: "querystring_stringify (JObj []) = []"
    by (simp add: querystring_stringify_def stringifyFields_def)
  have r: "commandsToBatchQuery querystring_stringify (commandsValue ?cs)
        = (Inr [(''cmd[a]'', ''M''), (''cmd[b]'', ''N?'')] :: unit thrown + (string \<times> string) list)"
    by (simp add: commandsToBatchQuery_def commandsValue_def batchQueryEntry_def s)
  have r': "commandsToBatchQuery querystring_stringify (commandsValue ?cs')
        = (Inr [(''cmd[b]'', ''N?''), (''cmd[a]'', ''M'')] :: unit thrown + (string \<times> string) list)"
    by (simp add: commandsToBatchQuery_def commandsValue_def batchQueryEntry_def s)
  from encode_deterministic [OF d d' same, of querystring_stringify, where 'e = unit]
  obtain q q' where "commandsToBatchQuery querystring_stringify (commandsValue ?cs)
                       = (Inr q :: unit thrown + (string \<times> string) list)"
    and "commandsToBatchQuery querystring_stringify (commandsValue ?cs')
                       = (Inr q' :: unit thrown + (string \<times> string) list)"
    and "map_of q = map_of q'"
    by blast
  with r r' have "map_of [(''cmd[a]'', ''M''), (''cmd[b]'', ''N?'')]
                    = map_of [(''cmd[b]'', ''N?''), (''cmd[a]'', ''M'')]"
    by simp
  with d d' same r r' show ?thesis
    by blast
qed

text \<open>
  C9. For a stringifier that renders the empty object as the empty string, as
  \<open>querystring_stringify\<close> does: a command whose \<^verbatim>\<open>params\<close> is the empty mapping is
  encoded as its method followed by \<^verbatim>\<open>?\<close>, because the empty object is truthy; that
  differs from the method alone, which is the value of a command without
  \<^verbatim>\<open>params\<close>.
\<close>

theorem encode_empty_params:
  assumes "stringifyQuery (JObj []) = []" and "distinct (map fst cs)"
  shows "\<exists>q. commandsToBatchQuery stringifyQuery (commandsValue cs)
               = (Inr q :: 'e thrown + (string \<times> string) list)
           \<and> truthy (JObj [])
           \<and> (\<forall>name m. (name, Command m (Some [])) \<in> set cs \<longrightarrow>
                 map_of q (''cmd['' @ name @ '']'') = Some (m @ ''?'') \<and> m @ ''?'' \<noteq> m)
           \<and> (\<forall>name m. (name, Command m None) \<in> set cs \<longrightarrow>
                 map_of q (''cmd['' @ name @ '']'') = Some m)"
proof -
  let ?q = "map (specEntry stringifyQuery) cs"
  have q: "commandsToBatchQuery stringifyQuery (commandsValue cs)
             = (Inr ?q :: 'e thrown + (string \<times> string) list)"
    using assms(2) by (rule commandsToBatchQuery_commandsValue)
  have look: "map_of ?q (''cmd['' @ name @ '']'') = Some (specValue stringifyQuery c)"
    if "(name, c) \<in> set cs" for name c
  proof -
    have "specEntry stringifyQuery (name, c) \<in> set ?q"
      using that by force
    then have "(queryKey name, specValue stringifyQuery c) \<in> set ?q"
      by (simp add: specEntry_def)
    with specEntry_distinct [OF assms(2), of stringifyQuery]
    have "map_of ?q (queryKey name) = Some (specValue stringifyQuery c)"
      by (rule map_of_is_SomeI)
    then show ?thesis
      by (simp add: queryKey_def)
  qed
  have "map_of ?q (''cmd['' @ name @ '']'') = Some (m @ ''?'')"
    if "(name, Command m (Some [])) \<in> set cs" for name m
    using look [OF that] assms(1) by simp
  moreover have "map_of ?q (''cmd['' @ name @ '']'') = Some m"
    if "(name, Command m None) \<in> set cs" for name m
    using look [OF that] by simp
  ultimately show ?thesis
    using q by auto
qed

theorem encode_empty_params_witness:
  "querystring_stringify (JObj []) = []
   \<and> distinct (map fst [(''a'', Command ''M'' (Some [])), (''b'', Command ''M'' None)])
   \<and> commandsToBatchQuery querystring_stringify
        (commandsValue [(''a'', Command ''M'' (Some [])), (''b'', Command ''M'' None)])
      = (Inr [(''cmd[a]'', ''M?''), (''cmd[b]'', ''M'')] :: unit thrown + (string \<times> string) list)
   \<and> map_of [(''cmd[a]'', ''M?''), (''cmd[b]'', ''M'')] ''cmd[a]'' = Some ''M?''
   \<and> map_of [(''cmd[a]'', ''M?''), (''cmd[b]'', ''M'')] ''cmd[b]'' = Some ''M''"
proof -
  let ?cs = "[(''a'', Command ''M'' (Some [])), (''b'', Command ''M'' None)]"
  have s: "querystring_stringify (JObj []) = []"
    by (simp add: querystring_stringify_def stringifyFields_def)
  have d: "distinct (map fst ?cs)"
    by simp
  from encode_empty_params [of querystring_stringify ?cs, where 'e = unit] s d
  obtain q where q: "commandsToBatchQuery querystring_stringify (commandsValue ?cs)
                       = (Inr q :: unit thrown + (string \<times> string) list)"
    and a: "map_of q ''cmd[a]'' = Some ''M?''" and b: "map_of q ''cmd[b]'' = Some ''M''"
    by auto
  have "commandsToBatchQuery querystring_stringify (commandsValue ?cs)
          = (Inr [(''cmd[a]'', ''M?''), (''cmd[b]'', ''M'')] :: unit thrown + (string \<times> string) list)"
    by (simp add: commandsToBatchQuery_def commandsValue_def batchQueryEntry_def s)
  with q a b s d show ?thesis
    by simp
qed

text \<open>
  C10, as amended. Deriving the error sequence fails exactly on the payloads whose
  \<^verbatim>\<open>result.result_error\<close> is \<^verbatim>\<open>undefined\<close> or \<^verbatim>\<open>null\<close> or cannot be read at
  all. On those, and on a \<^verbatim>\<open>result\<close> object without the field,
  \<^verbatim>\<open>handleBatchPayload\<close> fails with a TypeError and not with the batch-command error
  of any message. Every other \<^verbatim>\<open>result_error\<close> is enumerated: a number or a boolean
  has no values, so the payload is returned; a string has its characters as values, so
  a non-empty string raises the batch-command error; an array is taken as it is and an
  object by its values. Whenever the sequence is derived, the payload is returned if
  and only if the sequence is empty, and a sequence of strings never ends in a
  TypeError.
\<close>

theorem validate_result_error_shapes:
  "(resultError payload = (Inl e :: 'e thrown + jsval) \<longleftrightarrow>
      e = TypeError \<and>
      (payload = JUndefined \<or> payload = JNull
       \<or> getField payload ''result'' = (Inr JUndefined :: 'e thrown + jsval)
       \<or> getField payload ''result'' = (Inr JNull :: 'e thrown + jsval)))
   \<and> ((\<exists>errors. batchErrors payload = (Inr errors :: 'e thrown + jsval list)) \<longleftrightarrow>
      (\<exists>re. resultError payload = (Inr re :: 'e thrown + jsval) \<and> re \<noteq> JUndefined \<and> re \<noteq> JNull))
   \<and> (resultError payload = (Inr JUndefined :: 'e thrown + jsval)
        \<or> resultError payload = (Inr JNull :: 'e thrown + jsval)
        \<or> (getField payload ''result'' = (Inr (JObj fields) :: 'e thrown + jsval)
            \<and> map_of fields ''result_error'' = None)
        \<or> resultError payload = (Inl e :: 'e thrown + jsval) \<longrightarrow>
      handleBatchPayload payload = (Inl TypeError :: 'e thrown + jsval)
      \<and> handleBatchPayload payload \<noteq> (Inl (Error msg) :: 'e thrown + jsval))
   \<and> (resultError payload = (Inr (JNum n) :: 'e thrown + jsval)
        \<or> resultError payload = (Inr (JBool b) :: 'e thrown + jsval) \<longrightarrow>
      handleBatchPayload payload = (Inr payload :: 'e thrown + jsval))
   \<and> (resultError payload = (Inr (JStr s) :: 'e thrown + jsval) \<longrightarrow>
      batchErrors payload = (Inr (map (\<lambda>c. JStr [c]) s) :: 'e thrown + jsval list)
      \<and> handleBatchPayload payload
          = (if s = [] then Inr payload
             else Inl (Error (''[batch] failed to process. Received errors in ''
                                @ showNat (length s) @ '' commands:\<newline>''
                                @ joinStrings ''\<newline>'' (map (\<lambda>c. [c]) s)))
               :: 'e thrown + jsval))
   \<and> (resultError payload = (Inr (JArr xs) :: 'e thrown + jsval) \<longrightarrow>
      batchErrors payload = (Inr xs :: 'e thrown + jsval list))
   \<and> (resultError payload = (Inr (JObj kvs) :: 'e thrown + jsval) \<longrightarrow>
      batchErrors payload = (Inr (map snd kvs) :: 'e thrown + jsval list))
   \<and> (batchErrors payload = (Inr errors :: 'e thrown + jsval list) \<longrightarrow>
      (handleBatchPayload payload = (Inr payload :: 'e thrown + jsval) \<longleftrightarrow> errors = [])
      \<and> (errors = map JStr msgs \<longrightarrow>
           handleBatchPayload payload \<noteq> (Inl TypeError :: 'e thrown + jsval)))"
proof (intro conjI)
  show "resultError payload = (Inl e :: 'e thrown + jsval) \<longleftrightarrow>
      e = TypeError \<and>
      (payload = JUndefined \<or> payload = JNull
       \<or> getField payload ''result'' = (Inr JUndefined :: 'e thrown + jsval)
       \<or> getField payload ''result'' = (Inr JNull :: 'e thrown + jsval))"
    by (rule resultError_TypeError_iff)
next
  show "(\<exists>errors. batchErrors payload = (Inr errors :: 'e thrown + jsval list)) \<longleftrightarrow>
      (\<exists>re. resultError payload = (Inr re :: 'e thrown + jsval) \<and> re \<noteq> JUndefined \<and> re \<noteq> JNull)"
  proof (cases "resultError payload :: 'e thrown + jsval")
    case (Inl a)
    then show ?thesis by (simp add: batchErrors_def)
  next
    case (Inr re)
    then show ?thesis
      by (cases re) (simp_all add: batchErrors_def isArray_def objectValues_def)
  qed
next
  show "resultError payload = (Inr JUndefined :: 'e thrown + jsval)
        \<or> resultError payload = (Inr JNull :: 'e thrown + jsval)
        \<or> (getField payload ''result'' = (Inr (JObj fields) :: 'e thrown + jsval)
            \<and> map_of fields ''result_error'' = None)
        \<or> resultError payload = (Inl e :: 'e thrown + jsval) \<longrightarrow>
      handleBatchPayload payload = (Inl TypeError :: 'e thrown + jsval)
      \<and> handleBatchPayload payload \<noteq> (Inl (Error msg) :: 'e thrown + jsval)"
    using resultError_TypeError_iff [of payload e]
    by (auto simp: handleBatchPayload_def batchErrors_def resultError_def isArray_def
        objectValues_def)
next
  show "resultError payload = (Inr (JNum n) :: 'e thrown + jsval)
        \<or> resultError payload = (Inr (JBool b) :: 'e thrown + jsval) \<longrightarrow>
      handleBatchPayload payload = (Inr payload :: 'e thrown + jsval)"
    by (auto simp: handleBatchPayload_def batchErrors_def isArray_def objectValues_def)
next
  show "resultError payload = (Inr (JStr s) :: 'e thrown + jsval) \<longrightarrow>
      batchErrors payload = (Inr (map (\<lambda>c. JStr [c]) s) :: 'e thrown + jsval list)
      \<and> handleBatchPayload payload
          = (if s = [] then Inr payload
             else Inl (Error (''[batch] failed to process. Received errors in ''
                                @ showNat (length s) @ '' commands:\<newline>''
                                @ joinStrings ''\<newline>'' (map (\<lambda>c. [c]) s)))
               :: 'e thrown + jsval)"
  proof
    assume re: "resultError payload = (Inr (JStr s) :: 'e thrown + jsval)"
    have errs: "batchErrors payload = (Inr (map JStr (map (\<lambda>c. [c]) s)) :: 'e thrown + jsval list)"
      using batchErrors_of_resultError [OF re]
      by (simp add: isArray_def objectValues_chars comp_def)
    have join: "joinFrom ''\<newline>'' (map JStr (map (\<lambda>c. [c]) s))
                  = (Inr (joinStrings ''\<newline>'' (map (\<lambda>c. [c]) s)) :: 'e thrown + string)"
      by (rule joinFrom_strings)
    show "batchErrors payload = (Inr (map (\<lambda>c. JStr [c]) s) :: 'e thrown + jsval list)
      \<and> handleBatchPayload payload
          = (if s = [] then Inr payload
             else Inl (Error (''[batch] failed to process. Received errors in ''
                                @ showNat (length s) @ '' commands:\<newline>''
                                @ joinStrings ''\<newline>'' (map (\<lambda>c. [c]) s)))
               :: 'e thrown + jsval)"
      using errs join
      by (simp add: handleBatchPayload_def batchErrorMessage_def comp_def)
  qed
next
  show "resultError payload = (Inr (JArr xs) :: 'e thrown + jsval) \<longrightarrow>
      batchErrors payload = (Inr xs :: 'e thrown + jsval list)"
    by (simp add: batchErrors_def isArray_def)
next
  show "resultError payload = (Inr (JObj kvs) :: 'e thrown + jsval) \<longrightarrow>
      batchErrors payload = (Inr (map snd kvs) :: 'e thrown + jsval list)"
    by (simp add: batchErrors_def isArray_def objectValues_def)
next
  show "batchErrors payload = (Inr errors :: 'e thrown + jsval list) \<longrightarrow>
      (handleBatchPayload payload = (Inr payload :: 'e thrown + jsval) \<longleftrightarrow> errors = [])
      \<and> (errors = map JStr msgs \<longrightarrow>
           handleBatchPayload payload \<noteq> (Inl TypeError :: 'e thrown + jsval))"
    by (auto simp: handleBatchPayload_def joinFrom_strings split: sum.splits)
qed

theorem validate_result_error_shapes_witness:
  "handleBatchPayload (JObj [(''result'', JObj [(''result'', JObj [])])])
     = (Inl TypeError :: unit thrown + jsval)
   \<and> handleBatchPayload (JObj [(''result'', JObj [(''result_error'', JNull)])])
     = (Inl TypeError :: unit thrown + jsval)
   \<and> handleBatchPayload (JObj []) = (Inl TypeError :: unit thrown + jsval)
   \<and> handleBatchPayload (JObj [(''result'', JObj [(''result_error'', JNum 5)])])
     = (Inr (JObj [(''result'', JObj [(''result_error'', JNum 5)])]) :: unit thrown + jsval)
   \<and> handleBatchPayload (JObj [(''result'', JObj [(''result_error'', JStr ''oops'')])])
     = (Inl (Error ''[batch] failed to process. Received errors in 4 commands:\<newline>o\<newline>o\<newline>p\<newline>s'')
          :: unit thrown + jsval)
   \<and> batchErrors (JObj [(''result'', JObj [(''result_error'', JArr [JStr ''bad ID''])])])
     = (Inr [JStr ''bad ID''] :: unit thrown + jsval list)
   \<and> batchErrors (JObj [(''result'', JObj [(''result_error'', JObj [(''a'', JStr ''bad ID'')])])])
     = (Inr [JStr ''bad ID''] :: unit thrown + jsval list)
   \<and> handleBatchPayload (JObj [(''result'', JObj [(''result_error'', JArr [JStr ''bad ID''])])])
     \<noteq> (Inl TypeError :: unit thrown + jsval)"
proof -
  let ?absent = "JObj [(''result'', JObj [(''result'', JObj [])])]"
  let ?null = "JObj [(''result'', JObj [(''result_error'', JNull)])]"
  let ?num = "JObj [(''result'', JObj [(''result_error'', JNum 5)])]"
  let ?str = "JObj [(''result'', JObj [(''result_error'', JStr ''oops'')])]"
  let ?arr = "JObj [(''result'', JObj [(''result_error'', JArr [JStr ''bad ID''])])]"
  let ?obj = "JObj [(''result'', JObj [(''result_error'', JObj [(''a'', JStr ''bad ID'')])])]"
  have absent: "getField ?absent ''result'' = (Inr (JObj [(''result'', JObj [])]) :: unit thrown + jsval)
      \<and> map_of [(''result'', JObj [])] ''result_error'' = None"
    by simp
  have null: "resultError ?null = (Inr JNull :: unit thrown + jsval)"
    by (simp add: resultError_def)
  have noresult: "resultError (JObj []) = (Inl TypeError :: unit thrown + jsval)"
    by (simp add: resultError_def)
  have num: "resultError ?num = (Inr (JNum 5) :: unit thrown + jsval)"
    by (simp add: resultError_def)
  have str: "resultError ?str = (Inr (JStr ''oops'') :: unit thrown + jsval)"
    by (simp add: resultError_def)
  have arr: "resultError ?arr = (Inr (JArr [JStr ''bad ID'']) :: unit thrown + jsval)"
    by (simp add: resultError_def)
  have obj: "resultError ?obj = (Inr (JObj [(''a'', JStr ''bad ID'')]) :: unit thrown + jsval)"
    by (simp add: resultError_def)
  note t = validate_result_error_shapes [where 'e = unit]
  have 1: "handleBatchPayload ?absent = (Inl TypeError :: unit thrown + jsval)"
    using t [where payload = ?absent and fields = "[(''result'', JObj [])]"] absent by blast
  have 2: "handleBatchPayload ?null = (Inl TypeError :: unit thrown + jsval)"
    using t [where payload = ?null] null by blast
  have 3: "handleBatchPayload (JObj []) = (Inl TypeError :: unit thrown + jsval)"
    using t [where payload = "JObj []" and e = TypeError] noresult by blast
  have 4: "handleBatchPayload ?num = (Inr ?num :: unit thrown + jsval)"
    using t [where payload = ?num and n = 5] num by blast
  have 5: "handleBatchPayload ?str
     = (Inl (Error ''[batch] failed to process. Received errors in 4 commands:\<newline>o\<newline>o\<newline>p\<newline>s'')
          :: unit thrown + jsval)"
    using t [where payload = ?str and s = "''oops''"] str by (simp add: showNat_4)
  have 6: "batchErrors ?arr = (Inr [JStr ''bad ID''] :: unit thrown + jsval list)"
    using t [where payload = ?arr and xs = "[JStr ''bad ID'']"] arr by blast
  have 7: "batchErrors ?obj = (Inr [JStr ''bad ID''] :: unit thrown + jsval list)"
    using t [where payload = ?obj and kvs = "[(''a'', JStr ''bad ID'')]"] obj by simp
  have 8: "handleBatchPayload ?arr \<noteq> (Inl TypeError :: unit thrown + jsval)"
    using t [where payload = ?arr and xs = "[JStr ''bad ID'']" and errors = "[JStr ''bad ID'']"
        and msgs = "[''bad ID'']"] arr
    by simp
  from 1 2 3 4 5 6 7 8 show ?thesis
    by blast
qed

text \<open>
  C10 as stated, that the validation is total only where \<^verbatim>\<open>result_error\<close> is an
  array or a non-null object, fails: for the number 5 and for \<^verbatim>\<open>true\<close>, which are
  neither, it returns the payload.
\<close>

theorem validate_primitive_result_error_counterexample:
  "resultError (JObj [(''result'', JObj [(''result_error'', JNum 5)])])
     = (Inr (JNum 5) :: unit thrown + jsval)
   \<and> handleBatchPayload (JObj [(''result'', JObj [(''result_error'', JNum 5)])])
     = (Inr (JObj [(''result'', JObj [(''result_error'', JNum 5)])]) :: unit thrown + jsval)
   \<and> resultError (JObj [(''result'', JObj [(''result_error'', JBool True)])])
     = (Inr (JBool True) :: unit thrown + jsval)
   \<and> handleBatchPayload (JObj [(''result'', JObj [(''result_error'', JBool True)])])
     = (Inr (JObj [(''result'', JObj [(''result_error'', JBool True)])]) :: unit thrown + jsval)"
  by (simp add: handleBatchPayload_def batchErrors_def resultError_def isArray_def
      objectValues_def)

end
